theory Spec2Isabelle
  imports Complex_Main
begin

section \<open>Numbers and errors\<close>

text \<open>
  The scripts compute with Python floats. The embedding reads every float as a real
  number: arithmetic is exact, there is no NaN and no infinity, so "finite input" is
  every value of type \<open>real\<close>. A Python \<open>None\<close> in a numeric slot is the \<open>None\<close> of
  \<open>real option\<close>. Exceptions are values of \<open>py_error\<close>.
\<close>

datatype py_error = KeyError | ZeroDivisionError | ValueError

section \<open>Policy A: \<open>analyze_rice_crop_health\<close> (Most\_Definitly\_Not\_My\_Crop.py)\<close>

text \<open>
  \<^verbatim>\<open>temp_score = max(0, 100 - abs(temperature - 25) * 3)\<close>,
  \<^verbatim>\<open>rain_score = max(0, 100 - abs(rainfall - 125) * 0.8)\<close>,
  \<^verbatim>\<open>crop_health_score = (temp_score * 0.6 + rain_score * 0.4)\<close>.
  The two local variables are named definitions, so that their values can be stated.
\<close>

definition temp_score :: "real \<Rightarrow> real" where
  "temp_score temperature = max 0 (100 - \<bar>temperature - 25\<bar> * 3)"

definition rain_score :: "real \<Rightarrow> real" where
  "rain_score rainfall = max 0 (100 - \<bar>rainfall - 125\<bar> * 0.8)"

definition analyze_rice_crop_health :: "real \<Rightarrow> real \<Rightarrow> real" where
  "analyze_rice_crop_health temperature rainfall =
     temp_score temperature * 0.6 + rain_score rainfall * 0.4"

section \<open>Policy B: \<open>calculate_rice_crop_health_score\<close> (No\_Name.py)\<close>

text \<open>
  One entry of the \<^verbatim>\<open>conditions\<close> dictionary: the keys \<^verbatim>\<open>'min'\<close>, \<^verbatim>\<open>'max'\<close> and
  \<^verbatim>\<open>'ideal'\<close> (the first two suffixed, \<open>min\<close> and \<open>max\<close> being constants of HOL).
\<close>

record param_conditions =
  min_c :: real
  max_c :: real
  ideal :: real

definition conditions :: "string \<rightharpoonup> param_conditions" where
  "conditions =
     [''temperature'' \<mapsto> \<lparr>min_c = 20, max_c = 35, ideal = 25\<rparr>,
      ''humidity'' \<mapsto> \<lparr>min_c = 60, max_c = 80, ideal = 70\<rparr>,
      ''precipitation'' \<mapsto> \<lparr>min_c = 100, max_c = 200, ideal = 150\<rparr>,
      ''solar_radiation'' \<mapsto> \<lparr>min_c = 4, max_c = 6, ideal = 5\<rparr>]"

text \<open>
  The nested helper. The division raises when \<^verbatim>\<open>max_distance\<close> is zero; no entry of
  \<open>conditions\<close> makes it zero, but the helper is modelled for every entry it could be
  given.
\<close>

definition calculate_parameter_score :: "real option \<Rightarrow> param_conditions \<Rightarrow> py_error + real" where
  "calculate_parameter_score val param_conditions =
     (case val of
        None \<Rightarrow> Inr 0
      | Some v \<Rightarrow>
          if v < min_c param_conditions \<or> v > max_c param_conditions
          then Inr (max 0 (100 - \<bar>v - ideal param_conditions\<bar> * 5))
          else
            let distance_from_ideal = \<bar>v - ideal param_conditions\<bar>;
                max_distance = max \<bar>min_c param_conditions - ideal param_conditions\<bar>
                                   \<bar>max_c param_conditions - ideal param_conditions\<bar>
            in if max_distance = 0 then Inl ZeroDivisionError
               else Inr (max 0 (100 * (1 - (distance_from_ideal / max_distance)\<^sup>2))))"

text \<open>
  The argument \<^verbatim>\<open>row\<close> is indexed by label: a label the row does not have raises
  \<^verbatim>\<open>KeyError\<close>, a label it has holds a number or \<^verbatim>\<open>None\<close>.
\<close>

type_synonym row = "string \<rightharpoonup> real option"

definition param_score :: "row \<Rightarrow> string \<Rightarrow> py_error + real" where
  "param_score row k =
     (case row k of
        None \<Rightarrow> Inl KeyError
      | Some val \<Rightarrow>
          (case conditions k of
             None \<Rightarrow> Inl KeyError
           | Some pc \<Rightarrow> calculate_parameter_score val pc))"

text \<open>
  The body of the \<^verbatim>\<open>try\<close>: the four entries of \<^verbatim>\<open>scores\<close> in the order the source
  evaluates them, then the weighted sum. The first exception ends the body.
\<close>

definition score_body :: "row \<Rightarrow> py_error + real" where
  "score_body row =
     (case param_score row ''temperature'' of Inl e \<Rightarrow> Inl e | Inr s_temperature \<Rightarrow>
     (case param_score row ''humidity'' of Inl e \<Rightarrow> Inl e | Inr s_humidity \<Rightarrow>
     (case param_score row ''precipitation'' of Inl e \<Rightarrow> Inl e | Inr s_precipitation \<Rightarrow>
     (case param_score row ''solar_radiation'' of Inl e \<Rightarrow> Inl e | Inr s_solar_radiation \<Rightarrow>
        Inr (s_temperature * 0.35 + s_precipitation * 0.3 + s_humidity * 0.2
             + s_solar_radiation * 0.15)))))"

text \<open>\<^verbatim>\<open>except Exception\<close>: the error is reported and the function returns \<^verbatim>\<open>None\<close>.\<close>

definition calculate_rice_crop_health_score :: "row \<Rightarrow> real option" where
  "calculate_rice_crop_health_score row =
     (case score_body row of Inl e \<Rightarrow> None | Inr crop_health_score \<Rightarrow> Some crop_health_score)"

text \<open>A row with exactly the four labels the scorer reads.\<close>

definition mk_row :: "real option \<Rightarrow> real option \<Rightarrow> real option \<Rightarrow> real option \<Rightarrow> row" where
  "mk_row t h p s =
     [''temperature'' \<mapsto> t, ''humidity'' \<mapsto> h, ''precipitation'' \<mapsto> p, ''solar_radiation'' \<mapsto> s]"

section \<open>The NASA POWER normalizer: \<open>fetch_nasa_power_data\<close> (No\_Name.py)\<close>

text \<open>
  The loop reads \<^verbatim>\<open>data['properties']['parameter']\<close> as a dictionary from date keys to
  dictionaries from parameter keys to values. A value is a number or JSON \<^verbatim>\<open>null\<close>;
  \<open>parameter_items\<close> is what \<^verbatim>\<open>.items()\<close> yields, in the order of the payload.
\<close>

type_synonym daily_values = "string \<rightharpoonup> real option"

type_synonym parameter_items = "(string \<times> daily_values) list"

text \<open>
  The parsed body of the response, as far as the function inspects it: whether the key
  \<^verbatim>\<open>'properties'\<close> is there, whether \<^verbatim>\<open>'parameter'\<close> is under it, and the items.
\<close>

datatype json_data =
    No_properties
  | No_parameter
  | Parameter parameter_items

text \<open>
  What \<^verbatim>\<open>requests.get\<close> does is an input of the model: it raises
  \<^verbatim>\<open>RequestException\<close>, or it returns a response with a status code and a body that
  \<^verbatim>\<open>response.json()\<close> decodes (\<open>Some\<close>) or not (\<open>None\<close>, the \<^verbatim>\<open>JSONDecodeError\<close>). The
  arguments of the source function (latitude, longitude and the two dates) only build the
  request.
\<close>

datatype http_outcome =
    Request_Exception
  | Response int "json_data option"

text \<open>The calls of \<^verbatim>\<open>st.error\<close>, one constructor for each call site.\<close>

datatype st_error =
    HTTP_Error int
  | Response_Content
  | JSON_Decode_Error
  | Unexpected_data_structure
  | Received_data
  | Error_processing_date string
  | No_valid_data_could_be_processed
  | Request_Error

text \<open>
  A row of the DataFrame. The date is a day number; the other four cells hold a number or
  \<^verbatim>\<open>None\<close>.
\<close>

record dated =
  date :: int

record nasa_row = dated +
  temperature :: "real option"
  humidity :: "real option"
  precipitation :: "real option"
  solar_radiation :: "real option"

text \<open>\<^verbatim>\<open>values.get(key, None)\<close>: \<^verbatim>\<open>None\<close> for a missing key and for a key that holds null.\<close>

definition dict_get :: "('k \<rightharpoonup> 'v option) \<Rightarrow> 'k \<Rightarrow> 'v option" where
  "dict_get d k = (case d k of None \<Rightarrow> None | Some v \<Rightarrow> v)"

text \<open>The dictionary appended to \<^verbatim>\<open>processed_data\<close> for a date that parses.\<close>

definition make_row :: "int \<Rightarrow> daily_values \<Rightarrow> nasa_row" where
  "make_row dt vals =
     \<lparr>date = dt,
      temperature = dict_get vals ''T2M'',
      humidity = dict_get vals ''RH2M'',
      precipitation = dict_get vals ''PRECTOTCORR'',
      solar_radiation = dict_get vals ''ALLSKY_SFC_SW_DWN''\<rparr>"

text \<open>
  The \<^verbatim>\<open>for\<close> loop, with the reported errors and \<^verbatim>\<open>processed_data\<close> as its state.
  \<^verbatim>\<open>datetime.strptime(date, "%Y%m%d")\<close> is a parameter: \<open>strptime d\<close> is the day the key
  denotes, or \<open>None\<close> where the library raises \<^verbatim>\<open>ValueError\<close>. The handler inside the loop
  reports the date and goes on with the next item. (The payload type has a dictionary
  under every date key, so \<^verbatim>\<open>values.get\<close> raises nothing.)
\<close>

fun process_items ::
  "(string \<Rightarrow> int option) \<Rightarrow> parameter_items \<Rightarrow> st_error list \<times> nasa_row list
     \<Rightarrow> st_error list \<times> nasa_row list" where
  "process_items strptime [] state = state"
| "process_items strptime ((d, vals) # rest) (errors, processed_data) =
     process_items strptime rest
       (case strptime d of
          None \<Rightarrow> (errors @ [Error_processing_date d], processed_data)
        | Some dt \<Rightarrow> (errors, processed_data @ [make_row dt vals]))"

text \<open>\<^verbatim>\<open>df.dropna()\<close>: a row stays when none of its cells is missing.\<close>

definition complete_row :: "nasa_row \<Rightarrow> bool" where
  "complete_row r \<longleftrightarrow>
     temperature r \<noteq> None \<and> humidity r \<noteq> None \<and> precipitation r \<noteq> None
     \<and> solar_radiation r \<noteq> None"

definition dropna :: "nasa_row list \<Rightarrow> nasa_row list" where
  "dropna df = filter complete_row df"

text \<open>
  The function returns the errors it reported and its result: \<open>None\<close> is Python's
  \<^verbatim>\<open>None\<close>, \<open>Some df\<close> the DataFrame.
\<close>

definition fetch_nasa_power_data ::
  "(string \<Rightarrow> int option) \<Rightarrow> http_outcome \<Rightarrow> st_error list \<times> nasa_row list option" where
  "fetch_nasa_power_data strptime outcome =
     (case outcome of
        Request_Exception \<Rightarrow> ([Request_Error], None)
      | Response status_code body \<Rightarrow>
          if status_code \<noteq> 200 then ([HTTP_Error status_code, Response_Content], None)
          else
            (case body of
               None \<Rightarrow> ([JSON_Decode_Error, Response_Content], None)
             | Some No_properties \<Rightarrow> ([Unexpected_data_structure, Received_data], None)
             | Some No_parameter \<Rightarrow> ([Unexpected_data_structure, Received_data], None)
             | Some (Parameter items) \<Rightarrow>
                 (case process_items strptime items ([], []) of
                    (errors, processed_data) \<Rightarrow>
                      let df = dropna processed_data
                      in if df = [] then (errors @ [No_valid_data_could_be_processed], None)
                         else (errors, Some df))))"

text \<open>
  What one pass of the loop appends for an item: a row when the date parses, an error
  when it does not.
\<close>

definition row_of_item :: "(string \<Rightarrow> int option) \<Rightarrow> string \<times> daily_values \<Rightarrow> nasa_row option" where
  "row_of_item strptime item = map_option (\<lambda>dt. make_row dt (snd item)) (strptime (fst item))"

definition error_of_item :: "(string \<Rightarrow> int option) \<Rightarrow> string \<times> daily_values \<Rightarrow> st_error option" where
  "error_of_item strptime item =
     (case strptime (fst item) of None \<Rightarrow> Some (Error_processing_date (fst item)) | Some dt \<Rightarrow> None)"

text \<open>
  A record of the payload has the four parameters when each of the four keys holds a
  number.
\<close>

definition has_all_parameters :: "daily_values \<Rightarrow> bool" where
  "has_all_parameters vals \<longleftrightarrow>
     dict_get vals ''T2M'' \<noteq> None \<and> dict_get vals ''RH2M'' \<noteq> None
     \<and> dict_get vals ''PRECTOTCORR'' \<noteq> None \<and> dict_get vals ''ALLSKY_SFC_SW_DWN'' \<noteq> None"

text \<open>
  The row that \<^verbatim>\<open>rice_data.apply(calculate_rice_crop_health_score, axis=1)\<close> hands to the
  scorer: the cells of the row under their column labels (the four the scorer reads).
\<close>

definition as_row :: "nasa_row \<Rightarrow> row" where
  "as_row r = mk_row (temperature r) (humidity r) (precipitation r) (solar_radiation r)"

text \<open>
  A parser for three date keys (the days are counted from 1970-01-01), to evaluate the
  normalizer at concrete payloads.
\<close>

definition three_days :: "string \<Rightarrow> int option" where
  "three_days = [''20240101'' \<mapsto> 19723, ''20240102'' \<mapsto> 19724, ''20240103'' \<mapsto> 19725]"

section \<open>The trend projection: \<open>predict_future_temperatures\<close> (Most\_Definitly\_Not\_My\_Crop.py)\<close>

text \<open>
  The two columns of \<^verbatim>\<open>weather_df\<close> that the function reads. The dates come from
  \<^verbatim>\<open>pd.to_datetime\<close> of day strings, so a date is a day number and
  \<^verbatim>\<open>pd.Timedelta(days=i)\<close> adds \<open>i\<close> to it.
\<close>

record weather_row = dated +
  avg_temperature :: real

record prediction_row = dated +
  predicted_avg_temperature :: real

text \<open>
  \<^verbatim>\<open>sklearn.linear_model.LinearRegression\<close> with one feature, by its contract: \<^verbatim>\<open>fit\<close>
  centres the data and solves the least-squares problem, \<^verbatim>\<open>coef_\<close> is the slope,
  \<^verbatim>\<open>intercept_\<close> is the mean of the targets minus the slope times the mean of the feature.
  When the feature has no spread (one sample, or all days equal) every slope fits equally
  well, and the library returns the solution of least norm, slope 0. \<^verbatim>\<open>fit\<close> raises
  \<^verbatim>\<open>ValueError\<close> on zero samples. The targets are numbers: a frame with a missing
  average temperature is outside the model.
\<close>

record linear_model =
  coef :: real
  intercept :: real

definition mean :: "real list \<Rightarrow> real" where
  "mean xs = sum_list xs / real (length xs)"

definition LinearRegression_fit :: "real list \<Rightarrow> real list \<Rightarrow> py_error + linear_model" where
  "LinearRegression_fit X y =
     (if X = [] then Inl ValueError
      else
        let X_offset = mean X;
            y_offset = mean y;
            sxx = (\<Sum>x\<leftarrow>X. (x - X_offset)\<^sup>2);
            sxy = (\<Sum>(x, t)\<leftarrow>zip X y. (x - X_offset) * (t - y_offset));
            slope = (if sxx = 0 then 0 else sxy / sxx)
        in Inr \<lparr>coef = slope, intercept = y_offset - X_offset * slope\<rparr>)"

definition predict :: "linear_model \<Rightarrow> real list \<Rightarrow> real list" where
  "predict model X = map (\<lambda>x. coef model * x + intercept model) X"

text \<open>
  The column \<^verbatim>\<open>df['days']\<close>: the days since the first date of the frame. On an empty
  frame the column is empty, whatever the minimum is.
\<close>

definition days :: "weather_row list \<Rightarrow> int list" where
  "days df = map (\<lambda>r. date r - Min (set (map date df))) df"

text \<open>The model after \<^verbatim>\<open>model.fit(X, y)\<close>.\<close>

definition fitted_model :: "weather_row list \<Rightarrow> py_error + linear_model" where
  "fitted_model df = LinearRegression_fit (map real_of_int (days df)) (map avg_temperature df)"

text \<open>
  \<^verbatim>\<open>np.arange(a, b)\<close> stops before \<open>b\<close> and \<^verbatim>\<open>range(1, 31)\<close> before 31: both are the
  interval lists \<open>[a..b - 1]\<close> and \<open>[1..30]\<close>. The exception of \<^verbatim>\<open>fit\<close> is not caught.
\<close>

definition predict_future_temperatures :: "weather_row list \<Rightarrow> py_error + prediction_row list" where
  "predict_future_temperatures df =
     (case fitted_model df of
        Inl e \<Rightarrow> Inl e
      | Inr model \<Rightarrow>
          let future_days = [Max (set (days df)) + 1 .. Max (set (days df)) + 31 - 1];
              future_dates = map (\<lambda>i. Max (set (map date df)) + i) [1..31 - 1];
              future_temps = predict model (map real_of_int future_days)
          in Inr (map (\<lambda>(d, t). \<lparr>date = d, predicted_avg_temperature = t\<rparr>)
                      (zip future_dates future_temps)))"

text \<open>
  The sum of the squared residuals of the line \<open>a * x + b\<close> over the samples: what an
  ordinary least-squares fit makes least.
\<close>

definition squared_error :: "real \<Rightarrow> real \<Rightarrow> real list \<Rightarrow> real list \<Rightarrow> real" where
  "squared_error a b X y = (\<Sum>(x, t)\<leftarrow>zip X y. (t - (a * x + b))\<^sup>2)"

section \<open>Properties of the scorers\<close>

subsection \<open>Ranges of the per-parameter scores\<close>

lemma temp_score_bounds: "0 \<le> temp_score t \<and> temp_score t \<le> 100"
  by (simp add: temp_score_def)

lemma rain_score_bounds: "0 \<le> rain_score r \<and> rain_score r \<le> 100"
  by (simp add: rain_score_def)

lemma analyze_bounds:
  "0 \<le> analyze_rice_crop_health t r \<and> analyze_rice_crop_health t r \<le> 100"
  using temp_score_bounds[of t] rain_score_bounds[of r]
  by (simp add: analyze_rice_crop_health_def)

lemma calculate_parameter_score_bounds:
  assumes "calculate_parameter_score val pc = Inr s"
  shows "0 \<le> s \<and> s \<le> 100"
proof (cases val)
  case None
  with assms show ?thesis by (simp add: calculate_parameter_score_def)
next
  case (Some v)
  show ?thesis
  proof (cases "v < min_c pc \<or> v > max_c pc")
    case True
    with Some assms have "s = max 0 (100 - \<bar>v - ideal pc\<bar> * 5)"
      by (auto simp: calculate_parameter_score_def)
    then show ?thesis by simp
  next
    case False
    with Some assms
    have "s = max 0 (100 * (1 - (\<bar>v - ideal pc\<bar>
                / max \<bar>min_c pc - ideal pc\<bar> \<bar>max_c pc - ideal pc\<bar>)\<^sup>2))"
      by (auto simp: calculate_parameter_score_def Let_def split: if_splits)
    then show ?thesis by simp
  qed
qed

lemma calculate_parameter_score_None: "calculate_parameter_score None pc = Inr 0"
  by (simp add: calculate_parameter_score_def)

lemma conditions_cases:
  assumes "conditions k = Some pc"
  shows "pc = \<lparr>min_c = 20, max_c = 35, ideal = 25\<rparr> \<or> pc = \<lparr>min_c = 60, max_c = 80, ideal = 70\<rparr>
       \<or> pc = \<lparr>min_c = 100, max_c = 200, ideal = 150\<rparr> \<or> pc = \<lparr>min_c = 4, max_c = 6, ideal = 5\<rparr>"
  using assms by (auto simp: conditions_def split: if_splits)

lemma conditions_max_distance:
  assumes "conditions k = Some pc"
  shows "0 < max \<bar>min_c pc - ideal pc\<bar> \<bar>max_c pc - ideal pc\<bar>"
  using conditions_cases[OF assms] by auto

lemma conditions_temperature:
  "conditions ''temperature'' = Some \<lparr>min_c = 20, max_c = 35, ideal = 25\<rparr>"
  by (simp add: conditions_def)

lemma conditions_humidity:
  "conditions ''humidity'' = Some \<lparr>min_c = 60, max_c = 80, ideal = 70\<rparr>"
  by (simp add: conditions_def)

lemma conditions_precipitation:
  "conditions ''precipitation'' = Some \<lparr>min_c = 100, max_c = 200, ideal = 150\<rparr>"
  by (simp add: conditions_def)

lemma conditions_solar_radiation:
  "conditions ''solar_radiation'' = Some \<lparr>min_c = 4, max_c = 6, ideal = 5\<rparr>"
  by (simp add: conditions_def)

text \<open>With a label of the row and an entry of \<open>conditions\<close>, the helper returns a score.\<close>

lemma param_score_total:
  assumes "row k = Some val" "conditions k = Some pc"
  shows "\<exists>s. param_score row k = Inr s \<and> calculate_parameter_score val pc = Inr s
             \<and> 0 \<le> s \<and> s \<le> 100"
proof -
  have md: "max \<bar>min_c pc - ideal pc\<bar> \<bar>max_c pc - ideal pc\<bar> \<noteq> 0"
    using conditions_max_distance[OF assms(2)] by simp
  have "\<exists>s. calculate_parameter_score val pc = Inr s"
    using md by (cases val) (simp_all add: calculate_parameter_score_def Let_def)
  then obtain s where s: "calculate_parameter_score val pc = Inr s" ..
  moreover have "param_score row k = calculate_parameter_score val pc"
    using assms by (simp add: param_score_def)
  ultimately show ?thesis using calculate_parameter_score_bounds[OF s] by simp
qed


text \<open>The weighted sum of four scores of the range stays in the range.\<close>

lemma weighted_sum_bounds:
  fixes a b c d :: real
  assumes "0 \<le> a \<and> a \<le> 100" "0 \<le> b \<and> b \<le> 100" "0 \<le> c \<and> c \<le> 100" "0 \<le> d \<and> d \<le> 100"
  shows "0 \<le> a * 0.35 + b * 0.3 + c * 0.2 + d * 0.15
       \<and> a * 0.35 + b * 0.3 + c * 0.2 + d * 0.15 \<le> 100"
  using assms by simp

text \<open>
  What the scorer returns on a row that has the four labels: the weighted sum of the four
  helper results, whatever the cells hold.
\<close>

lemma score_on_labelled_row:
  assumes "row ''temperature'' = Some t" "row ''humidity'' = Some h"
      and "row ''precipitation'' = Some p" "row ''solar_radiation'' = Some s"
  shows "\<exists>st sh sp ss.
           calculate_parameter_score t \<lparr>min_c = 20, max_c = 35, ideal = 25\<rparr> = Inr st
         \<and> calculate_parameter_score h \<lparr>min_c = 60, max_c = 80, ideal = 70\<rparr> = Inr sh
         \<and> calculate_parameter_score p \<lparr>min_c = 100, max_c = 200, ideal = 150\<rparr> = Inr sp
         \<and> calculate_parameter_score s \<lparr>min_c = 4, max_c = 6, ideal = 5\<rparr> = Inr ss
         \<and> calculate_rice_crop_health_score row = Some (st * 0.35 + sp * 0.3 + sh * 0.2 + ss * 0.15)
         \<and> 0 \<le> st * 0.35 + sp * 0.3 + sh * 0.2 + ss * 0.15
         \<and> st * 0.35 + sp * 0.3 + sh * 0.2 + ss * 0.15 \<le> 100"
proof -
  obtain st where st: "param_score row ''temperature'' = Inr st"
      "calculate_parameter_score t \<lparr>min_c = 20, max_c = 35, ideal = 25\<rparr> = Inr st"
      "0 \<le> st \<and> st \<le> 100"
    using param_score_total[of row "''temperature''" t, OF assms(1) conditions_temperature] by blast
  obtain sh where sh: "param_score row ''humidity'' = Inr sh"
      "calculate_parameter_score h \<lparr>min_c = 60, max_c = 80, ideal = 70\<rparr> = Inr sh"
      "0 \<le> sh \<and> sh \<le> 100"
    using param_score_total[of row "''humidity''" h, OF assms(2) conditions_humidity] by blast
  obtain sp where sp: "param_score row ''precipitation'' = Inr sp"
      "calculate_parameter_score p \<lparr>min_c = 100, max_c = 200, ideal = 150\<rparr> = Inr sp"
      "0 \<le> sp \<and> sp \<le> 100"
    using param_score_total[of row "''precipitation''" p, OF assms(3) conditions_precipitation] by blast
  obtain ss where ss: "param_score row ''solar_radiation'' = Inr ss"
      "calculate_parameter_score s \<lparr>min_c = 4, max_c = 6, ideal = 5\<rparr> = Inr ss"
      "0 \<le> ss \<and> ss \<le> 100"
    using param_score_total[of row "''solar_radiation''" s, OF assms(4) conditions_solar_radiation] by blast
  have "calculate_rice_crop_health_score row = Some (st * 0.35 + sp * 0.3 + sh * 0.2 + ss * 0.15)"
    by (simp add: calculate_rice_crop_health_score_def score_body_def st(1) sh(1) sp(1) ss(1))
  moreover note weighted_sum_bounds[OF st(3) sp(3) sh(3) ss(3)]
  ultimately show ?thesis using st(2) sh(2) sp(2) ss(2) by blast
qed

lemma mk_row_labels:
  "mk_row t h p s ''temperature'' = Some t" "mk_row t h p s ''humidity'' = Some h"
  "mk_row t h p s ''precipitation'' = Some p" "mk_row t h p s ''solar_radiation'' = Some s"
  by (simp_all add: mk_row_def)

subsection \<open>The claims about the scorers\<close>

text \<open>
  Claim C1 (score boundedness). Policy A returns a score between 0 and 100 for every
  temperature and rainfall, and Policy B returns a score between 0 and 100 for every row
  whose four cells hold numbers.
\<close>

theorem score_boundedness:
  assumes "row ''temperature'' = Some (Some t)" "row ''humidity'' = Some (Some h)"
      and "row ''precipitation'' = Some (Some p)" "row ''solar_radiation'' = Some (Some s)"
  shows "0 \<le> analyze_rice_crop_health temp rain
       \<and> analyze_rice_crop_health temp rain \<le> 100
       \<and> (\<exists>v. calculate_rice_crop_health_score row = Some v \<and> 0 \<le> v \<and> v \<le> 100)"
  using analyze_bounds[of temp rain] score_on_labelled_row[OF assms] by blast

theorem score_boundedness_witness:
  "mk_row (Some 40) (Some 10) (Some 500) (Some 5.5) ''temperature'' = Some (Some 40)
   \<and> mk_row (Some 40) (Some 10) (Some 500) (Some 5.5) ''humidity'' = Some (Some 10)
   \<and> mk_row (Some 40) (Some 10) (Some 500) (Some 5.5) ''precipitation'' = Some (Some 500)
   \<and> mk_row (Some 40) (Some 10) (Some 500) (Some 5.5) ''solar_radiation'' = Some (Some 5.5)
   \<and> 0 \<le> analyze_rice_crop_health 60 (-3) \<and> analyze_rice_crop_health 60 (-3) \<le> 100
   \<and> (\<exists>v. calculate_rice_crop_health_score (mk_row (Some 40) (Some 10) (Some 500) (Some 5.5)) = Some v
          \<and> 0 \<le> v \<and> v \<le> 100)"
  using score_boundedness[of "mk_row (Some 40) (Some 10) (Some 500) (Some 5.5)" 40 10 500 "5.5" 60 "-3"]
  by (simp add: mk_row_labels)

text \<open>
  Claim C3 (known values at the ideal). Policy A at temperature 25 and rainfall 125 has both
  partial scores equal to 100 and returns 100; Policy B at temperature 25, humidity 70,
  precipitation 150 and solar radiation 5 has the four per-parameter scores equal to 100
  and returns 100.
\<close>

theorem known_values_at_ideal:
  "temp_score 25 = 100 \<and> rain_score 125 = 100 \<and> analyze_rice_crop_health 25 125 = 100
   \<and> param_score (mk_row (Some 25) (Some 70) (Some 150) (Some 5)) ''temperature'' = Inr 100
   \<and> param_score (mk_row (Some 25) (Some 70) (Some 150) (Some 5)) ''humidity'' = Inr 100
   \<and> param_score (mk_row (Some 25) (Some 70) (Some 150) (Some 5)) ''precipitation'' = Inr 100
   \<and> param_score (mk_row (Some 25) (Some 70) (Some 150) (Some 5)) ''solar_radiation'' = Inr 100
   \<and> calculate_rice_crop_health_score (mk_row (Some 25) (Some 70) (Some 150) (Some 5)) = Some 100"
proof -
  let ?row = "mk_row (Some 25) (Some 70) (Some 150) (Some 5)"
  have a: "temp_score 25 = 100" "rain_score 125 = 100"
    by (simp_all add: temp_score_def rain_score_def)
  then have b: "analyze_rice_crop_health 25 125 = 100"
    by (simp add: analyze_rice_crop_health_def)
  have c: "param_score ?row ''temperature'' = Inr 100" "param_score ?row ''humidity'' = Inr 100"
     "param_score ?row ''precipitation'' = Inr 100" "param_score ?row ''solar_radiation'' = Inr 100"
    by (simp_all add: param_score_def mk_row_labels conditions_temperature conditions_humidity
        conditions_precipitation conditions_solar_radiation calculate_parameter_score_def Let_def)
  have d: "calculate_rice_crop_health_score ?row = Some 100"
    by (simp add: calculate_rice_crop_health_score_def score_body_def c)
  show ?thesis using a b c d by simp
qed



text \<open>
  Claim C7 (the scorers are total). On every row that carries the four labels, whatever
  cells are \<^verbatim>\<open>None\<close>, the body of Policy B raises nothing: each helper call returns a
  score, a \<^verbatim>\<open>None\<close> cell scores 0, and the function returns the weighted sum, a number
  between 0 and 100. Policy A is a total function with values between 0 and 100.
\<close>

theorem scorers_total_over_labelled_rows:
  assumes "row ''temperature'' = Some t" "row ''humidity'' = Some h"
      and "row ''precipitation'' = Some p" "row ''solar_radiation'' = Some s"
  shows "(\<exists>st sh sp ss.
            calculate_parameter_score t \<lparr>min_c = 20, max_c = 35, ideal = 25\<rparr> = Inr st
          \<and> calculate_parameter_score h \<lparr>min_c = 60, max_c = 80, ideal = 70\<rparr> = Inr sh
          \<and> calculate_parameter_score p \<lparr>min_c = 100, max_c = 200, ideal = 150\<rparr> = Inr sp
          \<and> calculate_parameter_score s \<lparr>min_c = 4, max_c = 6, ideal = 5\<rparr> = Inr ss
          \<and> (t = None \<longrightarrow> st = 0) \<and> (h = None \<longrightarrow> sh = 0)
          \<and> (p = None \<longrightarrow> sp = 0) \<and> (s = None \<longrightarrow> ss = 0)
          \<and> score_body row = Inr (st * 0.35 + sp * 0.3 + sh * 0.2 + ss * 0.15)
          \<and> calculate_rice_crop_health_score row = Some (st * 0.35 + sp * 0.3 + sh * 0.2 + ss * 0.15)
          \<and> 0 \<le> st * 0.35 + sp * 0.3 + sh * 0.2 + ss * 0.15
          \<and> st * 0.35 + sp * 0.3 + sh * 0.2 + ss * 0.15 \<le> 100)
       \<and> 0 \<le> analyze_rice_crop_health temp rain
       \<and> analyze_rice_crop_health temp rain \<le> 100"
proof -
  obtain st sh sp ss where sc:
      "calculate_parameter_score t \<lparr>min_c = 20, max_c = 35, ideal = 25\<rparr> = Inr st"
      "calculate_parameter_score h \<lparr>min_c = 60, max_c = 80, ideal = 70\<rparr> = Inr sh"
      "calculate_parameter_score p \<lparr>min_c = 100, max_c = 200, ideal = 150\<rparr> = Inr sp"
      "calculate_parameter_score s \<lparr>min_c = 4, max_c = 6, ideal = 5\<rparr> = Inr ss"
      and res: "calculate_rice_crop_health_score row = Some (st * 0.35 + sp * 0.3 + sh * 0.2 + ss * 0.15)"
      and bnd: "0 \<le> st * 0.35 + sp * 0.3 + sh * 0.2 + ss * 0.15"
               "st * 0.35 + sp * 0.3 + sh * 0.2 + ss * 0.15 \<le> 100"
    using score_on_labelled_row[OF assms] by blast
  have absent: "t = None \<longrightarrow> st = 0" "h = None \<longrightarrow> sh = 0" "p = None \<longrightarrow> sp = 0" "s = None \<longrightarrow> ss = 0"
    using sc by (auto simp: calculate_parameter_score_None)
  have body: "score_body row = Inr (st * 0.35 + sp * 0.3 + sh * 0.2 + ss * 0.15)"
    using res by (simp add: calculate_rice_crop_health_score_def split: sum.splits)
  show ?thesis
    using sc absent body res bnd analyze_bounds[of temp rain] by blast
qed

theorem scorers_total_over_labelled_rows_witness:
  "mk_row (Some 25) None (Some 150) None ''temperature'' = Some (Some 25)
   \<and> mk_row (Some 25) None (Some 150) None ''humidity'' = Some None
   \<and> mk_row (Some 25) None (Some 150) None ''precipitation'' = Some (Some 150)
   \<and> mk_row (Some 25) None (Some 150) None ''solar_radiation'' = Some None
   \<and> score_body (mk_row (Some 25) None (Some 150) None) = Inr 65
   \<and> calculate_rice_crop_health_score (mk_row (Some 25) None (Some 150) None) = Some 65
   \<and> 0 \<le> analyze_rice_crop_health 0 0 \<and> analyze_rice_crop_health 0 0 \<le> 100"
  using scorers_total_over_labelled_rows[of "mk_row (Some 25) None (Some 150) None"
          "Some 25" None "Some 150" None 0 0]
  by (auto simp: mk_row_labels calculate_parameter_score_def Let_def)

text \<open>
  Claim C9 (no monotonicity across the edge of the band). For the temperature entry the
  value 35, the last one inside the band, scores 0 and the value 36, farther from the ideal
  and outside the band, scores 45: a value inside the band can score strictly less than a
  farther value outside it. The score jumps at the edge: every interval to the right of 35
  holds a value that scores at least 45.
\<close>

theorem policy_B_jump_at_band_edge:
  "calculate_parameter_score (Some 35) \<lparr>min_c = 20, max_c = 35, ideal = 25\<rparr> = Inr 0
   \<and> calculate_parameter_score (Some 36) \<lparr>min_c = 20, max_c = 35, ideal = 25\<rparr> = Inr 45
   \<and> (\<exists>k pc v1 v2 s1 s2. conditions k = Some pc
         \<and> min_c pc \<le> v1 \<and> v1 \<le> max_c pc \<and> (v2 < min_c pc \<or> max_c pc < v2)
         \<and> \<bar>v1 - ideal pc\<bar> < \<bar>v2 - ideal pc\<bar>
         \<and> calculate_parameter_score (Some v1) pc = Inr s1
         \<and> calculate_parameter_score (Some v2) pc = Inr s2 \<and> s1 < s2)
   \<and> (\<forall>\<delta>. 0 < \<delta> \<longrightarrow> (\<exists>v s. 35 < v \<and> v < 35 + \<delta>
         \<and> calculate_parameter_score (Some v) \<lparr>min_c = 20, max_c = 35, ideal = 25\<rparr> = Inr s
         \<and> 45 \<le> s))"
proof -
  let ?pc = "\<lparr>min_c = 20, max_c = 35, ideal = 25\<rparr>"
  have a: "calculate_parameter_score (Some 35) ?pc = Inr 0"
    by (simp add: calculate_parameter_score_def Let_def)
  have b: "calculate_parameter_score (Some 36) ?pc = Inr 45"
    by (simp add: calculate_parameter_score_def)
  have "conditions ''temperature'' = Some ?pc \<and> min_c ?pc \<le> 35 \<and> 35 \<le> max_c ?pc
        \<and> (36 < min_c ?pc \<or> max_c ?pc < 36) \<and> \<bar>35 - ideal ?pc\<bar> < \<bar>36 - ideal ?pc\<bar>
        \<and> calculate_parameter_score (Some 35) ?pc = Inr 0
        \<and> calculate_parameter_score (Some 36) ?pc = Inr 45 \<and> (0::real) < 45"
    using a b by (simp add: conditions_temperature)
  then have c: "\<exists>k pc v1 v2 s1 s2. conditions k = Some pc
         \<and> min_c pc \<le> v1 \<and> v1 \<le> max_c pc \<and> (v2 < min_c pc \<or> max_c pc < v2)
         \<and> \<bar>v1 - ideal pc\<bar> < \<bar>v2 - ideal pc\<bar>
         \<and> calculate_parameter_score (Some v1) pc = Inr s1
         \<and> calculate_parameter_score (Some v2) pc = Inr s2 \<and> s1 < s2"
    by blast
  have d: "\<exists>v s. 35 < v \<and> v < 35 + \<delta> \<and> calculate_parameter_score (Some v) ?pc = Inr s \<and> 45 \<le> s"
    if "0 < \<delta>" for \<delta> :: real
  proof -
    define v where "v = 35 + min \<delta> 1 / 2"
    have v: "35 < v" "v < 35 + \<delta>" "v \<le> 36" using that by (simp_all add: v_def min_def)
    then have "calculate_parameter_score (Some v) ?pc = Inr (100 - (v - 25) * 5)"
      by (simp add: calculate_parameter_score_def max_absorb2)
    moreover have "45 \<le> 100 - (v - 25) * 5" using v by simp
    ultimately show ?thesis using v by blast
  qed
  show ?thesis using a b c d by blast
qed

theorem policy_B_jump_at_band_edge_witness:
  "\<exists>v s. 35 < v \<and> v < 35 + (1::real)
         \<and> calculate_parameter_score (Some v) \<lparr>min_c = 20, max_c = 35, ideal = 25\<rparr> = Inr s
         \<and> 45 \<le> s"
proof -
  from policy_B_jump_at_band_edge
  have "(0::real) < 1 \<longrightarrow> (\<exists>v s. 35 < v \<and> v < 35 + (1::real)
         \<and> calculate_parameter_score (Some v) \<lparr>min_c = 20, max_c = 35, ideal = 25\<rparr> = Inr s
         \<and> 45 \<le> s)"
    by blast
  then show ?thesis by simp
qed

section \<open>Properties of the normalizer\<close>

text \<open>The loop, item by item.\<close>

lemma process_items_eq:
  "process_items strptime items (errors, processed_data) =
     (errors @ List.map_filter (error_of_item strptime) items,
      processed_data @ List.map_filter (row_of_item strptime) items)"
proof (induction items arbitrary: errors processed_data)
  case Nil
  then show ?case by (simp add: map_filter_simps)
next
  case (Cons item items)
  obtain d vals where item: "item = (d, vals)" by (cases item)
  show ?case
    by (cases "strptime d")
       (simp_all add: item Cons.IH map_filter_simps row_of_item_def error_of_item_def)
qed

lemma complete_make_row: "complete_row (make_row dt vals) \<longleftrightarrow> has_all_parameters vals"
  by (simp add: complete_row_def make_row_def has_all_parameters_def)

lemma fetch_parameter:
  "fetch_nasa_power_data strptime (Response 200 (Some (Parameter items))) =
     (let df = dropna (List.map_filter (row_of_item strptime) items)
      in if df = []
         then (List.map_filter (error_of_item strptime) items @ [No_valid_data_could_be_processed], None)
         else (List.map_filter (error_of_item strptime) items, Some df))"
  by (simp add: fetch_nasa_power_data_def process_items_eq Let_def)

lemma fetch_Some_cases:
  assumes "fetch_nasa_power_data strptime outcome = (msgs, Some df)"
  shows "\<exists>items. outcome = Response 200 (Some (Parameter items))"
  using assms
  by (auto simp: fetch_nasa_power_data_def Let_def
           split: http_outcome.splits if_splits option.splits json_data.splits prod.splits)

lemma dropna_rows:
  "dropna (List.map_filter (row_of_item strptime) items) =
     List.map_filter (row_of_item strptime) (filter (\<lambda>item. has_all_parameters (snd item)) items)"
proof (induction items)
  case Nil
  then show ?case by (simp add: dropna_def map_filter_simps)
next
  case (Cons item items)
  then show ?case
    by (cases "strptime (fst item)")
       (auto simp: dropna_def map_filter_simps row_of_item_def complete_make_row)
qed

lemma map_filter_all_Some:
  assumes "\<forall>x\<in>set xs. f x \<noteq> None"
  shows "length (List.map_filter f xs) = length xs"
  using assms by (induction xs) (auto simp: map_filter_simps)

text \<open>When nothing is left, and what the scorer is handed.\<close>

lemma three_days_simps:
  "three_days ''20240101'' = Some 19723" "three_days ''20240102'' = Some 19724"
  "three_days ''20240103'' = Some 19725" "three_days ''2024-01-01'' = None"
  by (simp_all add: three_days_def)

lemma dropna_empty_iff:
  "dropna (List.map_filter (row_of_item strptime) items) = [] \<longleftrightarrow>
     (\<forall>item\<in>set items. strptime (fst item) = None \<or> \<not> has_all_parameters (snd item))"
proof (induction items)
  case Nil
  then show ?case by (simp add: dropna_def map_filter_simps)
next
  case (Cons item items)
  then show ?case
    by (cases "strptime (fst item)")
       (auto simp: dropna_def map_filter_simps row_of_item_def complete_make_row)
qed

lemma as_row_labels:
  "as_row r ''temperature'' = Some (temperature r)" "as_row r ''humidity'' = Some (humidity r)"
  "as_row r ''precipitation'' = Some (precipitation r)"
  "as_row r ''solar_radiation'' = Some (solar_radiation r)"
  by (simp_all add: as_row_def mk_row_labels)

lemma as_row_cell:
  assumes "as_row r k = Some val"
  shows "val = temperature r \<or> val = humidity r \<or> val = precipitation r \<or> val = solar_radiation r"
  using assms by (auto simp: as_row_def mk_row_def split: if_splits)

subsection \<open>The claims about the normalizer\<close>

text \<open>
  Claim C5 (required-field exclusion), as amended. Take a payload of N date records whose
  keys all parse, exactly one of which lacks a parameter value. When N is at least 2 the
  normalizer reports no error and returns the rows of the other N - 1 records, in the
  order of the payload: the record that lacks a value is dropped whole. When N is 1
  nothing is left, and the normalizer returns \<^verbatim>\<open>None\<close> after reporting that no valid data
  could be processed; it returns no series of 0 records.
\<close>

theorem one_incomplete_record_dropped:
  assumes parse: "\<forall>item\<in>set items. strptime (fst item) \<noteq> None"
      and one: "length (filter (\<lambda>item. \<not> has_all_parameters (snd item)) items) = 1"
  shows "(2 \<le> length items \<longrightarrow>
            (\<exists>df. fetch_nasa_power_data strptime (Response 200 (Some (Parameter items))) = ([], Some df)
               \<and> length df = length items - 1
               \<and> df = List.map_filter (row_of_item strptime)
                         (filter (\<lambda>item. has_all_parameters (snd item)) items)
               \<and> (\<forall>r\<in>set df. complete_row r)))
       \<and> (length items = 1 \<longrightarrow>
            fetch_nasa_power_data strptime (Response 200 (Some (Parameter items)))
              = ([No_valid_data_could_be_processed], None))"
proof -
  let ?good = "filter (\<lambda>item. has_all_parameters (snd item)) items"
  let ?df = "dropna (List.map_filter (row_of_item strptime) items)"
  have errs: "List.map_filter (error_of_item strptime) items = []"
    using parse by (induction items) (auto simp: map_filter_simps error_of_item_def)
  have df: "?df = List.map_filter (row_of_item strptime) ?good" by (rule dropna_rows)
  have "\<forall>item\<in>set ?good. row_of_item strptime item \<noteq> None"
    using parse by (auto simp: row_of_item_def)
  then have "length ?df = length ?good" unfolding df by (rule map_filter_all_Some)
  moreover have "length ?good + length (filter (\<lambda>item. \<not> has_all_parameters (snd item)) items)
                   = length items"
    by (rule sum_length_filter_compl)
  ultimately have len: "length ?df = length items - 1" using one by simp
  have complete: "\<forall>r\<in>set ?df. complete_row r" by (simp add: dropna_def)
  have big: "2 \<le> length items \<longrightarrow>
            (\<exists>df. fetch_nasa_power_data strptime (Response 200 (Some (Parameter items))) = ([], Some df)
               \<and> length df = length items - 1
               \<and> df = List.map_filter (row_of_item strptime) ?good
               \<and> (\<forall>r\<in>set df. complete_row r))"
  proof
    assume "2 \<le> length items"
    with len have "?df \<noteq> []" by auto
    then have "fetch_nasa_power_data strptime (Response 200 (Some (Parameter items))) = ([], Some ?df)"
      by (simp add: fetch_parameter errs Let_def)
    with len df complete show "\<exists>df. fetch_nasa_power_data strptime (Response 200 (Some (Parameter items))) = ([], Some df)
               \<and> length df = length items - 1
               \<and> df = List.map_filter (row_of_item strptime) ?good
               \<and> (\<forall>r\<in>set df. complete_row r)"
      by metis
  qed
  have small: "length items = 1 \<longrightarrow>
            fetch_nasa_power_data strptime (Response 200 (Some (Parameter items)))
              = ([No_valid_data_could_be_processed], None)"
  proof
    assume "length items = 1"
    with len have "?df = []" by simp
    then show "fetch_nasa_power_data strptime (Response 200 (Some (Parameter items)))
              = ([No_valid_data_could_be_processed], None)"
      by (simp add: fetch_parameter errs Let_def)
  qed
  from big small show ?thesis by (rule conjI)
qed

theorem one_incomplete_record_dropped_witness:
  "fetch_nasa_power_data three_days (Response 200 (Some (Parameter
      [(''20240101'', [''T2M'' \<mapsto> Some 24, ''RH2M'' \<mapsto> Some 65, ''PRECTOTCORR'' \<mapsto> Some 3,
                        ''ALLSKY_SFC_SW_DWN'' \<mapsto> Some 5]),
       (''20240102'', [''T2M'' \<mapsto> None, ''RH2M'' \<mapsto> Some 66, ''PRECTOTCORR'' \<mapsto> Some 0,
                        ''ALLSKY_SFC_SW_DWN'' \<mapsto> Some 6]),
       (''20240103'', [''T2M'' \<mapsto> Some 26, ''RH2M'' \<mapsto> Some 67, ''PRECTOTCORR'' \<mapsto> Some 1,
                        ''ALLSKY_SFC_SW_DWN'' \<mapsto> Some 4])])))
   = ([], Some [\<lparr>date = 19723, temperature = Some 24, humidity = Some 65, precipitation = Some 3,
                  solar_radiation = Some 5\<rparr>,
                \<lparr>date = 19725, temperature = Some 26, humidity = Some 67, precipitation = Some 1,
                  solar_radiation = Some 4\<rparr>])"
  using one_incomplete_record_dropped[of
      "[(''20240101'', [''T2M'' \<mapsto> Some 24, ''RH2M'' \<mapsto> Some 65, ''PRECTOTCORR'' \<mapsto> Some 3,
                        ''ALLSKY_SFC_SW_DWN'' \<mapsto> Some 5]),
       (''20240102'', [''T2M'' \<mapsto> None, ''RH2M'' \<mapsto> Some 66, ''PRECTOTCORR'' \<mapsto> Some 0,
                        ''ALLSKY_SFC_SW_DWN'' \<mapsto> Some 6]),
       (''20240103'', [''T2M'' \<mapsto> Some 26, ''RH2M'' \<mapsto> Some 67, ''PRECTOTCORR'' \<mapsto> Some 1,
                        ''ALLSKY_SFC_SW_DWN'' \<mapsto> Some 4])]" three_days]
  by (simp add: three_days_simps has_all_parameters_def dict_get_def map_filter_simps
        row_of_item_def make_row_def)

text \<open>
  The claim as first stated (a series of exactly N - 1 records for every N) fails at
  N = 1: the only record lacks the temperature, and the result is \<^verbatim>\<open>None\<close>, not a series
  of 0 records.
\<close>

theorem single_incomplete_record_no_series:
  "three_days ''20240101'' \<noteq> None
   \<and> \<not> has_all_parameters [''RH2M'' \<mapsto> Some 66, ''PRECTOTCORR'' \<mapsto> Some 0, ''ALLSKY_SFC_SW_DWN'' \<mapsto> Some 6]
   \<and> fetch_nasa_power_data three_days (Response 200 (Some (Parameter
        [(''20240101'', [''RH2M'' \<mapsto> Some 66, ''PRECTOTCORR'' \<mapsto> Some 0,
                          ''ALLSKY_SFC_SW_DWN'' \<mapsto> Some 6])])))
       = ([No_valid_data_could_be_processed], None)
   \<and> \<not> (\<exists>msgs df. fetch_nasa_power_data three_days (Response 200 (Some (Parameter
        [(''20240101'', [''RH2M'' \<mapsto> Some 66, ''PRECTOTCORR'' \<mapsto> Some 0,
                          ''ALLSKY_SFC_SW_DWN'' \<mapsto> Some 6])])))
       = (msgs, Some df) \<and> length df = 1 - 1)"
  by (simp add: fetch_nasa_power_data_def three_days_simps has_all_parameters_def dict_get_def
        dropna_def complete_row_def make_row_def)

text \<open>
  Claim C6 (empty series). When the payload has the expected structure and every record
  either has a key that does not parse or lacks a parameter value, the normalizer returns
  \<^verbatim>\<open>None\<close>, and the last error it reports is that no valid data could be processed. It
  returns no series and raises nothing.
\<close>

theorem no_usable_record_returns_None:
  assumes "\<forall>item\<in>set items. strptime (fst item) = None \<or> \<not> has_all_parameters (snd item)"
  shows "fetch_nasa_power_data strptime (Response 200 (Some (Parameter items)))
           = (List.map_filter (error_of_item strptime) items @ [No_valid_data_could_be_processed], None)"
  using assms by (simp add: fetch_parameter dropna_empty_iff Let_def)

theorem no_usable_record_returns_None_witness:
  "fetch_nasa_power_data three_days (Response 200 (Some (Parameter
      [(''2024-01-01'', [''T2M'' \<mapsto> Some 24, ''RH2M'' \<mapsto> Some 65, ''PRECTOTCORR'' \<mapsto> Some 3,
                          ''ALLSKY_SFC_SW_DWN'' \<mapsto> Some 5]),
       (''20240102'', [''T2M'' \<mapsto> Some 25, ''RH2M'' \<mapsto> None, ''PRECTOTCORR'' \<mapsto> Some 0])])))
   = ([Error_processing_date ''2024-01-01'', No_valid_data_could_be_processed], None)"
  using no_usable_record_returns_None[of
      "[(''2024-01-01'', [''T2M'' \<mapsto> Some 24, ''RH2M'' \<mapsto> Some 65, ''PRECTOTCORR'' \<mapsto> Some 3,
                          ''ALLSKY_SFC_SW_DWN'' \<mapsto> Some 5]),
       (''20240102'', [''T2M'' \<mapsto> Some 25, ''RH2M'' \<mapsto> None, ''PRECTOTCORR'' \<mapsto> Some 0])]" three_days]
  by (simp add: three_days_simps has_all_parameters_def dict_get_def map_filter_simps
        error_of_item_def)

text \<open>
  Claim C10 (all four parameters are required). Whenever the normalizer returns a series,
  every row of it has a number in each of the four cells, so the scorer is never handed a
  \<^verbatim>\<open>None\<close> cell (the branch that scores an absent value as 0 is not taken) and returns a
  score. The series is what \<^verbatim>\<open>dropna\<close> leaves of the rows of the payload: the row of a
  record that lacks any of the four values is not in it.
\<close>

theorem normalizer_rows_have_four_values:
  assumes "fetch_nasa_power_data strptime outcome = (msgs, Some df)"
  shows "(\<forall>r\<in>set df.
            (\<exists>t h p s. temperature r = Some t \<and> humidity r = Some h
                \<and> precipitation r = Some p \<and> solar_radiation r = Some s)
            \<and> (\<forall>k. as_row r k \<noteq> Some None)
            \<and> (\<exists>v. calculate_rice_crop_health_score (as_row r) = Some v))
       \<and> (\<exists>items. outcome = Response 200 (Some (Parameter items))
            \<and> df = dropna (List.map_filter (row_of_item strptime) items)
            \<and> (\<forall>item\<in>set items. \<forall>dt. strptime (fst item) = Some dt
                  \<and> \<not> has_all_parameters (snd item) \<longrightarrow> make_row dt (snd item) \<notin> set df))"
proof -
  obtain items where out: "outcome = Response 200 (Some (Parameter items))"
    using fetch_Some_cases[OF assms] by blast
  have df: "df = dropna (List.map_filter (row_of_item strptime) items)"
    using assms unfolding out fetch_parameter by (simp add: Let_def split: if_splits)
  have complete: "complete_row r" if "r \<in> set df" for r
    using that by (simp add: df dropna_def)
  have rows: "(\<exists>t h p s. temperature r = Some t \<and> humidity r = Some h
                \<and> precipitation r = Some p \<and> solar_radiation r = Some s)
            \<and> (\<forall>k. as_row r k \<noteq> Some None)
            \<and> (\<exists>v. calculate_rice_crop_health_score (as_row r) = Some v)"
    if "r \<in> set df" for r
  proof -
    have c: "temperature r \<noteq> None" "humidity r \<noteq> None" "precipitation r \<noteq> None"
        "solar_radiation r \<noteq> None"
      using complete[OF that] by (simp_all add: complete_row_def)
    then have "\<exists>t h p s. temperature r = Some t \<and> humidity r = Some h
                \<and> precipitation r = Some p \<and> solar_radiation r = Some s"
      by auto
    moreover have "\<forall>k. as_row r k \<noteq> Some None"
      using c as_row_cell[of r] by metis
    moreover have "\<exists>v. calculate_rice_crop_health_score (as_row r) = Some v"
      using score_on_labelled_row[of "as_row r" "temperature r" "humidity r" "precipitation r"
          "solar_radiation r", OF as_row_labels] by blast
    ultimately show ?thesis by blast
  qed
  have dropped: "make_row dt (snd item) \<notin> set df"
    if "\<not> has_all_parameters (snd item)" for item :: "string \<times> daily_values" and dt
    using that complete[of "make_row dt (snd item)"] by (auto simp: complete_make_row)
  show ?thesis using out df rows dropped by blast
qed

theorem normalizer_rows_have_four_values_witness:
  "fetch_nasa_power_data three_days (Response 200 (Some (Parameter
      [(''20240101'', [''T2M'' \<mapsto> Some 24, ''RH2M'' \<mapsto> Some 65, ''PRECTOTCORR'' \<mapsto> Some 3,
                        ''ALLSKY_SFC_SW_DWN'' \<mapsto> Some 5]),
       (''20240102'', [''T2M'' \<mapsto> Some 25, ''RH2M'' \<mapsto> Some 66, ''PRECTOTCORR'' \<mapsto> Some 0])])))
    = ([], Some [\<lparr>date = 19723, temperature = Some 24, humidity = Some 65, precipitation = Some 3,
                   solar_radiation = Some 5\<rparr>])
   \<and> (\<exists>v. calculate_rice_crop_health_score
             (as_row \<lparr>date = 19723, temperature = Some 24, humidity = Some 65,
                      precipitation = Some 3, solar_radiation = Some 5\<rparr>) = Some v)"
proof -
  let ?out = "Response 200 (Some (Parameter
      [(''20240101'', [''T2M'' \<mapsto> Some 24, ''RH2M'' \<mapsto> Some 65, ''PRECTOTCORR'' \<mapsto> Some 3,
                        ''ALLSKY_SFC_SW_DWN'' \<mapsto> Some 5]),
       (''20240102'', [''T2M'' \<mapsto> Some 25, ''RH2M'' \<mapsto> Some 66, ''PRECTOTCORR'' \<mapsto> Some 0])]))"
  let ?r = "\<lparr>date = 19723, temperature = Some 24, humidity = Some 65, precipitation = Some 3,
                   solar_radiation = Some 5\<rparr>"
  have run: "fetch_nasa_power_data three_days ?out = ([], Some [?r])"
    by (simp add: fetch_nasa_power_data_def three_days_simps dict_get_def
          dropna_def complete_row_def make_row_def)
  from normalizer_rows_have_four_values[OF run]
  have "\<exists>v. calculate_rice_crop_health_score (as_row ?r) = Some v" by simp
  with run show ?thesis by simp
qed

section \<open>Properties of the trend projection\<close>

subsection \<open>The thirty projected rows\<close>

lemma fitted_model_Nil: "fitted_model [] = Inl ValueError"
  by (simp add: fitted_model_def days_def LinearRegression_fit_def)


lemma predict_future_temperatures_Nil: "predict_future_temperatures [] = Inl ValueError"
  by (simp add: predict_future_temperatures_def fitted_model_Nil)

lemma length_future: "length [a + 1 .. a + 31 - 1] = 30" "length [1 .. 31 - (1::int)] = 30"
  by simp_all

lemma nth_future:
  assumes "i < 30"
  shows "[a + 1 .. a + 31 - 1] ! i = a + 1 + int i" "[1 .. 31 - (1::int)] ! i = 1 + int i"
  using assms by (simp_all add: nth_upto)

lemma predict_future_temperatures_rows:
  assumes "fitted_model df = Inr model"
  shows "\<exists>res. predict_future_temperatures df = Inr res \<and> length res = 30
           \<and> (\<forall>i<30. res ! i =
                 \<lparr>date = Max (set (map date df)) + 1 + int i,
                  predicted_avg_temperature =
                    coef model * real_of_int (Max (set (days df)) + 1 + int i) + intercept model\<rparr>)"
proof -
  let ?fd = "[Max (set (days df)) + 1 .. Max (set (days df)) + 31 - 1]"
  let ?dates = "map (\<lambda>i. Max (set (map date df)) + i) [1..31 - 1]"
  let ?temps = "predict model (map real_of_int ?fd)"
  let ?res = "map (\<lambda>(d, t). \<lparr>date = d, predicted_avg_temperature = t\<rparr>) (zip ?dates ?temps)"
  have res: "predict_future_temperatures df = Inr ?res"
    by (simp add: predict_future_temperatures_def assms Let_def)
  have ld: "length ?dates = 30" and lt: "length ?temps = 30"
    by (simp_all add: predict_def)
  have len: "length ?res = 30" using ld lt by simp
  have nth: "?res ! i = \<lparr>date = Max (set (map date df)) + 1 + int i,
                  predicted_avg_temperature =
                    coef model * real_of_int (Max (set (days df)) + 1 + int i) + intercept model\<rparr>"
    if "i < 30" for i
  proof -
    have "?res ! i = (\<lambda>(d, t). \<lparr>date = d, predicted_avg_temperature = t\<rparr>) (?dates ! i, ?temps ! i)"
      using that ld lt by (simp)
    moreover have "?dates ! i = Max (set (map date df)) + 1 + int i"
      using that nth_future(2)[OF that] by (simp)
    moreover have "?temps ! i = coef model * real_of_int (Max (set (days df)) + 1 + int i) + intercept model"
      using that nth_future(1)[OF that, of "Max (set (days df))"] by (simp add: predict_def)
    ultimately show ?thesis by simp
  qed
  show ?thesis using res len nth by blast
qed



lemma Max_days:
  assumes "df \<noteq> []"
  shows "Max (set (days df)) = Max (set (map date df)) - Min (set (map date df))"
proof -
  let ?c = "Min (set (map date df))"
  have "mono (\<lambda>d::int. d - ?c)" by (simp add: mono_def)
  then have "Max (set (map date df)) - ?c = Max ((\<lambda>d. d - ?c) ` set (map date df))"
    using assms by (intro mono_Max_commute) simp_all
  moreover have "(\<lambda>d. d - ?c) ` set (map date df) = set (days df)"
    by (simp add: days_def image_image)
  ultimately show ?thesis by simp
qed

subsection \<open>The fit on samples that lie on a line\<close>

lemma zip_map_same: "zip xs (map f xs) = map (\<lambda>x. (x, f x)) xs"
  by (induction xs) simp_all

lemma mean_affine:
  assumes "xs \<noteq> []"
  shows "mean (map (\<lambda>x. a * x + b) xs) = a * mean xs + b"
proof -
  have "sum_list (map (\<lambda>x. a * x + b) xs) = a * sum_list xs + real (length xs) * b"
    by (simp add: sum_list_addf sum_list_const_mult sum_list_triv)
  moreover have "real (length xs) \<noteq> 0" using assms by simp
  ultimately show ?thesis by (simp add: mean_def field_simps)
qed

lemma spread_positive:
  fixes xs :: "real list"
  assumes "x \<in> set xs" "x' \<in> set xs" "x \<noteq> x'"
  shows "(\<Sum>x\<leftarrow>xs. (x - m)\<^sup>2) \<noteq> 0"
proof
  assume "(\<Sum>x\<leftarrow>xs. (x - m)\<^sup>2) = 0"
  moreover have "\<And>z. z \<in> set (map (\<lambda>x. (x - m)\<^sup>2) xs) \<Longrightarrow> 0 \<le> z" by auto
  ultimately have "\<forall>z\<in>set (map (\<lambda>x. (x - m)\<^sup>2) xs). z = 0"
    by (simp only: sum_list_nonneg_eq_0_iff)
  then have all: "\<forall>z\<in>set xs. z = m" by simp
  from all assms(1) have "x = m" by (rule bspec)
  moreover from all assms(2) have "x' = m" by (rule bspec)
  ultimately show False using assms(3) by simp
qed

lemma LinearRegression_fit_affine:
  assumes "x \<in> set X" "x' \<in> set X" "x \<noteq> x'"
  shows "LinearRegression_fit X (map (\<lambda>x. a * x + b) X) = Inr \<lparr>coef = a, intercept = b\<rparr>"
proof -
  let ?y = "map (\<lambda>x. a * x + b) X"
  let ?sxx = "(\<Sum>x\<leftarrow>X. (x - mean X)\<^sup>2)"
  have ne: "X \<noteq> []" using assms(1) by auto
  have my: "mean ?y = a * mean X + b" by (rule mean_affine[OF ne])
  have sxx: "?sxx \<noteq> 0" by (rule spread_positive[OF assms])
  have "map (\<lambda>(x, t). (x - mean X) * (t - mean ?y)) (zip X ?y)
          = map (\<lambda>x. a * (x - mean X)\<^sup>2) X"
    unfolding zip_map_same my by (simp add: power2_eq_square algebra_simps)
  then have "(\<Sum>(x, t)\<leftarrow>zip X ?y. (x - mean X) * (t - mean ?y))
          = (\<Sum>x\<leftarrow>X. a * (x - mean X)\<^sup>2)"
    by simp
  also have "\<dots> = a * ?sxx" by (rule sum_list_const_mult)
  finally have sxy: "(\<Sum>(x, t)\<leftarrow>zip X ?y. (x - mean X) * (t - mean ?y)) = a * ?sxx" .
  show ?thesis
    unfolding LinearRegression_fit_def Let_def sxy using ne sxx by (simp add: my)
qed

subsection \<open>The fit is a least-squares fit\<close>

text \<open>
  The slope and the intercept of \<open>LinearRegression_fit\<close> solve the normal equations, so no
  other line has a smaller sum of squared residuals over the samples; and when two samples
  differ in the feature, no other line has an equal one.
\<close>

lemma sum_list_pointwise:
  assumes "\<And>p. p \<in> set ps \<Longrightarrow> f p = g p"
  shows "sum_list (map f ps) = sum_list (map g ps)"
  using assms by (induction ps) simp_all

lemma normal_equation:
  fixes ps :: "(real \<times> real) list" and m c :: real
  defines "sxx \<equiv> (\<Sum>p\<leftarrow>ps. (fst p - m)\<^sup>2)"
      and "sxy \<equiv> (\<Sum>p\<leftarrow>ps. (fst p - m) * (snd p - c))"
  shows "sxx * (if sxx = 0 then 0 else sxy / sxx) = sxy"
proof (cases "sxx = 0")
  case True
  have "\<And>z. z \<in> set (map (\<lambda>p. (fst p - m)\<^sup>2) ps) \<Longrightarrow> 0 \<le> z" by auto
  with True have "\<forall>z\<in>set (map (\<lambda>p. (fst p - m)\<^sup>2) ps). z = 0"
    unfolding sxx_def by (simp only: sum_list_nonneg_eq_0_iff)
  then have "\<And>p. p \<in> set ps \<Longrightarrow> (fst p - m) * (snd p - c) = 0" by simp
  then have "sxy = (\<Sum>p\<leftarrow>ps. 0)" unfolding sxy_def by (rule sum_list_pointwise)
  then show ?thesis using True by simp
next
  case False
  then show ?thesis by simp
qed

lemma squared_error_split:
  fixes ps :: "(real \<times> real) list"
  assumes ne: "ps \<noteq> []"
  defines "n \<equiv> real (length ps)"
  defines "m \<equiv> (\<Sum>p\<leftarrow>ps. fst p) / n" and "c \<equiv> (\<Sum>p\<leftarrow>ps. snd p) / n"
  assumes normal: "(\<Sum>p\<leftarrow>ps. (fst p - m)\<^sup>2) * a' = (\<Sum>p\<leftarrow>ps. (fst p - m) * (snd p - c))"
  defines "b' \<equiv> c - m * a'"
  shows "(\<Sum>p\<leftarrow>ps. (snd p - (a * fst p + b))\<^sup>2)
           = (\<Sum>p\<leftarrow>ps. (snd p - (a' * fst p + b'))\<^sup>2)
             + (\<Sum>p\<leftarrow>ps. ((a' - a) * fst p + (b' - b))\<^sup>2)"
proof -
  have n: "n \<noteq> 0" using ne by (simp add: n_def)
  have sx: "(\<Sum>p\<leftarrow>ps. fst p) = n * m" and sy: "(\<Sum>p\<leftarrow>ps. snd p) = n * c"
    using n by (simp_all add: m_def c_def)
  let ?r = "\<lambda>p. snd p - (a' * fst p + b')"
  have r0: "(\<Sum>p\<leftarrow>ps. ?r p) = 0"
  proof -
    have "(\<Sum>p\<leftarrow>ps. ?r p) = (\<Sum>p\<leftarrow>ps. snd p) - (a' * (\<Sum>p\<leftarrow>ps. fst p) + n * b')"
      by (simp add: sum_list_subtractf sum_list_addf sum_list_const_mult sum_list_triv n_def)
    also have "\<dots> = 0" by (simp add: sx sy b'_def algebra_simps)
    finally show ?thesis .
  qed
  have r1: "(\<Sum>p\<leftarrow>ps. ?r p * (fst p - m)) = 0"
  proof -
    have "(\<Sum>p\<leftarrow>ps. ?r p * (fst p - m))
            = (\<Sum>p\<leftarrow>ps. (fst p - m) * (snd p - c) - a' * (fst p - m)\<^sup>2)"
      by (rule sum_list_pointwise) (simp add: b'_def power2_eq_square algebra_simps)
    also have "\<dots> = (\<Sum>p\<leftarrow>ps. (fst p - m) * (snd p - c)) - a' * (\<Sum>p\<leftarrow>ps. (fst p - m)\<^sup>2)"
      by (simp add: sum_list_subtractf sum_list_const_mult)
    also have "\<dots> = 0" using normal by (simp add: algebra_simps)
    finally show ?thesis .
  qed
  have "(\<Sum>p\<leftarrow>ps. (snd p - (a * fst p + b))\<^sup>2)
          = (\<Sum>p\<leftarrow>ps. (?r p)\<^sup>2 + ((a' - a) * fst p + (b' - b))\<^sup>2
                + (2 * (a' - a)) * (?r p * (fst p - m))
                + (2 * ((a' - a) * m + (b' - b))) * ?r p)"
    by (rule sum_list_pointwise) (simp add: power2_eq_square algebra_simps)
  also have "\<dots> = (\<Sum>p\<leftarrow>ps. (?r p)\<^sup>2) + (\<Sum>p\<leftarrow>ps. ((a' - a) * fst p + (b' - b))\<^sup>2)
                + (2 * (a' - a)) * (\<Sum>p\<leftarrow>ps. ?r p * (fst p - m))
                + (2 * ((a' - a) * m + (b' - b))) * (\<Sum>p\<leftarrow>ps. ?r p)"
    by (simp only: sum_list_addf sum_list_const_mult)
  finally show ?thesis by (simp add: r0 r1)
qed

lemma LinearRegression_fit_error_split:
  assumes len: "length X = length y"
      and fit: "LinearRegression_fit X y = Inr model"
  shows "squared_error a b X y
           = squared_error (coef model) (intercept model) X y
             + (\<Sum>x\<leftarrow>X. ((coef model - a) * x + (intercept model - b))\<^sup>2)"
proof -
  define ps where "ps = zip X y"
  have X: "X = map fst ps" and y: "y = map snd ps" using len by (simp_all add: ps_def)
  have ne: "ps \<noteq> []" using fit by (auto simp: LinearRegression_fit_def X)
  define m where "m = (\<Sum>p\<leftarrow>ps. fst p) / real (length ps)"
  define c where "c = (\<Sum>p\<leftarrow>ps. snd p) / real (length ps)"
  define sxx where "sxx = (\<Sum>p\<leftarrow>ps. (fst p - m)\<^sup>2)"
  define sxy where "sxy = (\<Sum>p\<leftarrow>ps. (fst p - m) * (snd p - c))"
  define a' where "a' = (if sxx = 0 then 0 else sxy / sxx)"
  have mX: "mean X = m" and my: "mean y = c" by (simp_all add: mean_def X y m_def c_def)
  have sxx': "(\<Sum>x\<leftarrow>X. (x - m)\<^sup>2) = sxx"
    by (simp add: X sxx_def o_def)
  have sxy': "(\<Sum>(x, t)\<leftarrow>zip X y. (x - m) * (t - c)) = sxy"
    by (simp add: ps_def[symmetric] sxy_def case_prod_unfold)
  have neX: "X \<noteq> []" using ne by (simp add: X)
  have "LinearRegression_fit X y = Inr \<lparr>coef = a', intercept = c - m * a'\<rparr>"
    unfolding LinearRegression_fit_def Let_def mX my
    unfolding sxx' sxy' a'_def using neX by simp
  with fit have model: "model = \<lparr>coef = a', intercept = c - m * a'\<rparr>" by simp
  have se: "squared_error u v X y = (\<Sum>p\<leftarrow>ps. (snd p - (u * fst p + v))\<^sup>2)" for u v
    by (simp add: squared_error_def ps_def[symmetric] case_prod_unfold)
  have normal: "(\<Sum>p\<leftarrow>ps. (fst p - m)\<^sup>2) * a' = (\<Sum>p\<leftarrow>ps. (fst p - m) * (snd p - c))"
    unfolding a'_def sxx_def sxy_def by (rule normal_equation)
  have "squared_error a b X y
          = squared_error a' (c - m * a') X y
            + (\<Sum>p\<leftarrow>ps. ((a' - a) * fst p + (c - m * a' - b))\<^sup>2)"
    unfolding se using squared_error_split[OF ne normal[unfolded m_def c_def], of a b]
    by (simp add: m_def c_def)
  moreover have "(\<Sum>p\<leftarrow>ps. ((a' - a) * fst p + (c - m * a' - b))\<^sup>2)
                   = (\<Sum>x\<leftarrow>X. ((a' - a) * x + (c - m * a' - b))\<^sup>2)"
    by (simp add: X o_def)
  ultimately show ?thesis by (simp add: model)
qed

lemma LinearRegression_fit_least_squares:
  assumes len: "length X = length y"
      and fit: "LinearRegression_fit X y = Inr model"
  shows "squared_error (coef model) (intercept model) X y \<le> squared_error a b X y"
proof -
  have "0 \<le> (\<Sum>x\<leftarrow>X. ((coef model - a) * x + (intercept model - b))\<^sup>2)"
    by (rule sum_list_nonneg) auto
  then show ?thesis using LinearRegression_fit_error_split[OF len fit, of a b] by simp
qed

lemma LinearRegression_fit_unique:
  assumes len: "length X = length y"
      and fit: "LinearRegression_fit X y = Inr model"
      and two: "x \<in> set X" "x' \<in> set X" "x \<noteq> x'"
      and least: "squared_error a b X y \<le> squared_error (coef model) (intercept model) X y"
  shows "a = coef model \<and> b = intercept model"
proof -
  let ?u = "\<lambda>x. ((coef model - a) * x + (intercept model - b))\<^sup>2"
  have nonneg: "\<And>z. z \<in> set (map ?u X) \<Longrightarrow> 0 \<le> z" by auto
  then have "0 \<le> sum_list (map ?u X)" by (rule sum_list_nonneg)
  with least LinearRegression_fit_error_split[OF len fit, of a b]
  have "sum_list (map ?u X) = 0" by simp
  with nonneg have "\<forall>z\<in>set (map ?u X). z = 0" by (simp only: sum_list_nonneg_eq_0_iff)
  then have zero: "\<forall>z\<in>set X. (coef model - a) * z + (intercept model - b) = 0" by simp
  from zero two(1) have e1: "(coef model - a) * x + (intercept model - b) = 0" by (rule bspec)
  from zero two(2) have e2: "(coef model - a) * x' + (intercept model - b) = 0" by (rule bspec)
  from e1 e2 have "(coef model - a) * (x - x') = 0" by (simp add: algebra_simps)
  with two(3) have a: "a = coef model" by simp
  with e1 have "b = intercept model" by simp
  with a show ?thesis ..
qed

subsection \<open>The claims about the trend projection\<close>



text \<open>
  Claim C8 (the fit on a perfectly linear series). Let every average temperature of the
  frame be 2 times the day offset of its row plus 10, and let the frame have two rows with
  different dates. Then the fitted slope is 2 and the fitted intercept is 10, and each of
  the 30 projected values is 2 times the day offset of its projected date plus 10: the
  projection continues the line. The fit is a least-squares fit on every frame: no line has
  a smaller sum of squared residuals over the pairs of day offset and average temperature.
\<close>

theorem linear_series_fit_and_projection:
  assumes lin: "\<forall>r\<in>set df. avg_temperature r
                   = 2 * real_of_int (date r - Min (set (map date df))) + 10"
      and two: "\<exists>r\<in>set df. \<exists>r'\<in>set df. date r \<noteq> date r'"
  shows "fitted_model df = Inr \<lparr>coef = 2, intercept = 10\<rparr>
       \<and> (\<exists>res. predict_future_temperatures df = Inr res \<and> length res = 30
            \<and> (\<forall>i<30. predicted_avg_temperature (res ! i)
                  = 2 * real_of_int (date (res ! i) - Min (set (map date df))) + 10))
       \<and> (\<forall>model a b. fitted_model frame = Inr model \<longrightarrow>
              squared_error (coef model) (intercept model)
                  (map real_of_int (days frame)) (map avg_temperature frame)
                \<le> squared_error a b (map real_of_int (days frame)) (map avg_temperature frame))"
proof -
  have least: "\<forall>model a b. fitted_model frame = Inr model \<longrightarrow>
              squared_error (coef model) (intercept model)
                  (map real_of_int (days frame)) (map avg_temperature frame)
                \<le> squared_error a b (map real_of_int (days frame)) (map avg_temperature frame)"
  proof (intro allI impI)
    fix model a b
    assume "fitted_model frame = Inr model"
    then have "LinearRegression_fit (map real_of_int (days frame)) (map avg_temperature frame)
                 = Inr model"
      by (simp add: fitted_model_def)
    moreover have "length (map real_of_int (days frame)) = length (map avg_temperature frame)"
      by (simp add: days_def)
    ultimately show "squared_error (coef model) (intercept model)
                  (map real_of_int (days frame)) (map avg_temperature frame)
                \<le> squared_error a b (map real_of_int (days frame)) (map avg_temperature frame)"
      by (rule LinearRegression_fit_least_squares[rotated])
  qed
  let ?X = "map real_of_int (days df)"
  obtain r r' where r: "r \<in> set df" "r' \<in> set df" "date r \<noteq> date r'" using two by blast
  then have ne: "df \<noteq> []" by auto
  have y: "map avg_temperature df = map (\<lambda>x. 2 * x + 10) ?X"
    using lin by (simp add: days_def)
  have "real_of_int (date r - Min (set (map date df))) \<in> set ?X"
       "real_of_int (date r' - Min (set (map date df))) \<in> set ?X"
    using r(1,2) by (auto simp: days_def)
  moreover have "real_of_int (date r - Min (set (map date df)))
                   \<noteq> real_of_int (date r' - Min (set (map date df)))"
    using r(3) by simp
  ultimately have fit: "fitted_model df = Inr \<lparr>coef = 2, intercept = 10\<rparr>"
    unfolding fitted_model_def y by (rule LinearRegression_fit_affine)
  obtain res where res: "predict_future_temperatures df = Inr res" "length res = 30"
      and nth: "\<And>i. i < 30 \<Longrightarrow> res ! i =
                 \<lparr>date = Max (set (map date df)) + 1 + int i,
                  predicted_avg_temperature =
                    coef \<lparr>coef = 2, intercept = 10\<rparr>
                      * real_of_int (Max (set (days df)) + 1 + int i)
                    + intercept \<lparr>coef = 2, intercept = 10\<rparr>\<rparr>"
    using predict_future_temperatures_rows[OF fit] by blast
  have "predicted_avg_temperature (res ! i)
          = 2 * real_of_int (date (res ! i) - Min (set (map date df))) + 10" if "i < 30" for i
    using nth[OF that] by (simp add: Max_days[OF ne])
  with fit res have "fitted_model df = Inr \<lparr>coef = 2, intercept = 10\<rparr>
       \<and> (\<exists>res. predict_future_temperatures df = Inr res \<and> length res = 30
            \<and> (\<forall>i<30. predicted_avg_temperature (res ! i)
                  = 2 * real_of_int (date (res ! i) - Min (set (map date df))) + 10))"
    by blast
  with least show ?thesis by blast
qed

theorem linear_series_fit_and_projection_witness:
  "fitted_model [\<lparr>date = 19723, avg_temperature = 10\<rparr>, \<lparr>date = 19724, avg_temperature = 12\<rparr>,
                 \<lparr>date = 19726, avg_temperature = 16\<rparr>] = Inr \<lparr>coef = 2, intercept = 10\<rparr>
   \<and> (\<exists>res. predict_future_temperatures
               [\<lparr>date = 19723, avg_temperature = 10\<rparr>, \<lparr>date = 19724, avg_temperature = 12\<rparr>,
                \<lparr>date = 19726, avg_temperature = 16\<rparr>] = Inr res
          \<and> length res = 30
          \<and> res ! 0 = \<lparr>date = 19727, predicted_avg_temperature = 18\<rparr>)"
proof -
  let ?df = "[\<lparr>date = 19723, avg_temperature = 10\<rparr>, \<lparr>date = 19724, avg_temperature = 12\<rparr>,
              \<lparr>date = 19726, avg_temperature = 16\<rparr>]"
  have lin: "\<forall>r\<in>set ?df. avg_temperature r = 2 * real_of_int (date r - Min (set (map date ?df))) + 10"
    by simp
  have two: "\<exists>r\<in>set ?df. \<exists>r'\<in>set ?df. date r \<noteq> date r'"
    by (rule bexI[of _ "\<lparr>date = 19723, avg_temperature = 10\<rparr>"],
        rule bexI[of _ "\<lparr>date = 19724, avg_temperature = 12\<rparr>"]) simp_all
  from linear_series_fit_and_projection[OF lin two]
  obtain res where fit: "fitted_model ?df = Inr \<lparr>coef = 2, intercept = 10\<rparr>"
    and res: "predict_future_temperatures ?df = Inr res" "length res = 30"
    and nth: "\<forall>i<30. predicted_avg_temperature (res ! i)
                  = 2 * real_of_int (date (res ! i) - Min (set (map date ?df))) + 10"
    by blast
  obtain res' where res': "predict_future_temperatures ?df = Inr res'"
      "\<forall>i<30. res' ! i =
         \<lparr>date = Max (set (map date ?df)) + 1 + int i,
          predicted_avg_temperature =
            coef \<lparr>coef = 2, intercept = 10\<rparr> * real_of_int (Max (set (days ?df)) + 1 + int i)
            + intercept \<lparr>coef = 2, intercept = 10\<rparr>\<rparr>"
    using predict_future_temperatures_rows[OF fit] by blast
  have same: "res' = res" using res res' by simp
  have d0: "date (res ! 0) = 19727" using res'(2) same by simp
  have "predicted_avg_temperature (res ! 0) = 18" using nth d0 by simp
  with d0 have "res ! 0 = \<lparr>date = 19727, predicted_avg_temperature = 18\<rparr>" by (cases "res ! 0") simp
  with fit res show ?thesis by blast
qed

end
